theory Spec2Isabelle
  imports Main "HOL-Library.Product_Lexorder" "HOL-Library.Multiset"
begin

section \<open>Python Norminette: the data model\<close>

text \<open>
  The checker of \<^verbatim>\<open>src/main.py\<close>: two rule checks over a parsed syntax tree (type hints,
  docstrings), an adapter around the external linter flake8, the per-file checker, the
  reporter and the runner. Python strings are modelled as \<^typ>\<open>string\<close>, Python integers
  as \<^typ>\<open>int\<close>, lists as lists; everything the interpreter and its libraries supply (file
  contents, the parser, the subprocess, the file system) is a field of the record
  \<open>runtime\<close> below.
\<close>

subsection \<open>NormError\<close>

text \<open>
  The dataclass \<^verbatim>\<open>NormError\<close>; \<^verbatim>\<open>severity\<close> has the default "Error". The field \<^verbatim>\<open>file\<close> is
  written \<open>file'\<close>.
\<close>

record NormError =
  file' :: string
  line :: int
  col :: int
  code :: string
  message :: string
  severity :: string

definition mkNormError :: "string \<Rightarrow> int \<Rightarrow> int \<Rightarrow> string \<Rightarrow> string \<Rightarrow> NormError" where
  "mkNormError f l c cd m =
     \<lparr>file' = f, line = l, col = c, code = cd, message = m, severity = ''Error''\<rparr>"

subsection \<open>Exceptions\<close>

text \<open>
  An exception is its class, as far as the handlers of the source tell classes apart, and
  the text \<^verbatim>\<open>str(e)\<close>. \<open>SyntaxError\<close> stands for the class and its subclasses and carries the
  attributes \<^verbatim>\<open>lineno\<close>, \<^verbatim>\<open>offset\<close> (either may be \<^verbatim>\<open>None\<close>) and \<^verbatim>\<open>msg\<close>. \<open>OtherException\<close> is any
  other subclass of \<^verbatim>\<open>Exception\<close>.
\<close>

datatype exn =
    SyntaxError "int option" "int option" string string
  | FileNotFoundError string
  | OtherException string

fun str_exn :: "exn \<Rightarrow> string" where
  "str_exn (SyntaxError ln off msg txt) = txt"
| "str_exn (FileNotFoundError txt) = txt"
| "str_exn (OtherException txt) = txt"

subsection \<open>The syntax tree\<close>

text \<open>
  The part of Python's \<^verbatim>\<open>ast\<close> the checks read. An expression is either a constant, with a
  string or another value, or anything else. A parameter (\<^verbatim>\<open>ast.arg\<close>) has its name and its
  optional annotation; \<^verbatim>\<open>ast.arguments\<close> has the seven parameter fields of the grammar.
\<close>

datatype constant_value = StrValue string | OtherValue

datatype expr = Constant constant_value | OtherExpr

record arg =
  arg :: string
  annotation :: "expr option"

record arguments =
  posonlyargs :: "arg list"
  args :: "arg list"
  vararg :: "arg option"
  kwonlyargs :: "arg list"
  kw_defaults :: "expr option list"
  kwarg :: "arg option"
  defaults :: "expr list"

text \<open>
  Nodes that hold statements. \<open>FunctionDef name args body returns lineno col_offset\<close> and
  \<open>AsyncFunctionDef\<close> with the same fields; \<open>ClassDef name body lineno col_offset\<close>;
  \<open>Expr value\<close> is an expression statement; \<open>Module body\<close> is what the parser returns;
  \<open>Other children\<close> is any other node under which statements can occur (a compound
  statement, an exception handler, a match case) or a simple statement (no children).

  The grammar puts no statement below an expression, an \<^verbatim>\<open>arguments\<close> or an \<^verbatim>\<open>arg\<close> object,
  and none of these is an instance of \<^verbatim>\<open>FunctionDef\<close> or \<^verbatim>\<open>ClassDef\<close>. They are kept in their
  own types, so that a tree of the model cannot hold a definition where the parser cannot
  produce one.
\<close>

datatype node =
    Module "node list"
  | FunctionDef string arguments "node list" "expr option" int int
  | AsyncFunctionDef string arguments "node list" "expr option" int int
  | ClassDef string "node list" int int
  | Expr expr
  | Other "node list"

fun iter_child_nodes :: "node \<Rightarrow> node list" where
  "iter_child_nodes (Module b) = b"
| "iter_child_nodes (FunctionDef nm ar b rt ln co) = b"
| "iter_child_nodes (AsyncFunctionDef nm ar b rt ln co) = b"
| "iter_child_nodes (ClassDef nm b ln co) = b"
| "iter_child_nodes (Expr v) = []"
| "iter_child_nodes (Other cs) = cs"

lemma sum_list_size_le:
  "sum_list (map (\<lambda>n. Suc (size n)) ns) \<le> size_list size (ns :: node list)"
  by (induction ns) auto

lemma iter_child_nodes_size:
  "sum_list (map (\<lambda>n. Suc (size n)) (iter_child_nodes n)) \<le> size n"
proof (cases n)
  case (Module b)
  then show ?thesis using sum_list_size_le [of b] by simp
next
  case (FunctionDef nm ar b rt ln co)
  then show ?thesis using sum_list_size_le [of b] by simp
next
  case (AsyncFunctionDef nm ar b rt ln co)
  then show ?thesis using sum_list_size_le [of b] by simp
next
  case (ClassDef nm b ln co)
  then show ?thesis using sum_list_size_le [of b] by simp
next
  case (Expr v)
  then show ?thesis by simp
next
  case (Other cs)
  then show ?thesis using sum_list_size_le [of cs] by simp
qed

text \<open>
  \<^verbatim>\<open>ast.walk\<close>: a queue that starts with the root; the first node is taken off, its children
  are put at the end, the node is yielded. \<open>walk_todo\<close> is the loop on the queue. The
  objects of the expression level that \<^verbatim>\<open>ast.walk\<close> yields as well are not nodes of the model:
  both checks pass over them, and leaving out subtrees without statements keeps the order
  of the nodes that remain.
\<close>

function walk_todo :: "node list \<Rightarrow> node list" where
  "walk_todo [] = []"
| "walk_todo (n # todo) = n # walk_todo (todo @ iter_child_nodes n)"
  by pat_completeness auto
termination
proof (relation "measure (\<lambda>todo. sum_list (map (\<lambda>n. Suc (size n)) todo))")
  show "wf (measure (\<lambda>todo. sum_list (map (\<lambda>n. Suc (size n)) todo)))" by simp
next
  fix n :: node and todo :: "node list"
  show "(todo @ iter_child_nodes n, n # todo)
      \<in> measure (\<lambda>todo. sum_list (map (\<lambda>n. Suc (size n)) todo))"
    using iter_child_nodes_size [of n] by simp
qed

definition walk :: "node \<Rightarrow> node list" where
  "walk tree = walk_todo [tree]"

subsection \<open>Strings\<close>

text \<open>\<^verbatim>\<open>s.startswith(p)\<close> and \<^verbatim>\<open>s.endswith(p)\<close>.\<close>

definition startswith :: "string \<Rightarrow> string \<Rightarrow> bool" where
  "startswith s p = (take (length p) s = p)"

definition endswith :: "string \<Rightarrow> string \<Rightarrow> bool" where
  "endswith s p = (length p \<le> length s \<and> drop (length s - length p) s = p)"

text \<open>A name between single quotes, as the messages show it.\<close>

definition quoted :: "string \<Rightarrow> string" where
  "quoted s = [CHR 0x27] @ s @ [CHR 0x27]"

section \<open>The rule checks\<close>

subsection \<open>Type hints\<close>

text \<open>
  The inner loop of \<^verbatim>\<open>_check_type_hints\<close> over \<^verbatim>\<open>node.args.args\<close>: a parameter named
  \<^verbatim>\<open>self\<close> or \<^verbatim>\<open>cls\<close> is passed over, a parameter without annotation gives an error at the
  position of the function.
\<close>

fun args_loop :: "string \<Rightarrow> string \<Rightarrow> int \<Rightarrow> int \<Rightarrow> arg list \<Rightarrow> NormError list" where
  "args_loop filepath nm ln co [] = []"
| "args_loop filepath nm ln co (a # rest) =
     (if arg a = ''self'' \<or> arg a = ''cls'' then args_loop filepath nm ln co rest
      else if annotation a = None then
        mkNormError filepath ln co ''TYPE_HINT''
          (''Argument '' @ quoted (arg a) @ '' in function '' @ quoted nm @
           '' missing type hint'')
        # args_loop filepath nm ln co rest
      else args_loop filepath nm ln co rest)"

text \<open>The body of the outer loop, for one node of the walk.\<close>

fun type_hints_node :: "string \<Rightarrow> node \<Rightarrow> NormError list" where
  "type_hints_node filepath (FunctionDef nm ar b rt ln co) =
     (if startswith nm ''__'' \<and> endswith nm ''__'' then []
      else
        (if rt = None then
           [mkNormError filepath ln co ''TYPE_HINT''
              (''Function '' @ quoted nm @ '' missing return type hint'')]
         else [])
        @ args_loop filepath nm ln co (args ar))"
| "type_hints_node filepath n = []"

fun type_hints_loop :: "string \<Rightarrow> node list \<Rightarrow> NormError list" where
  "type_hints_loop filepath [] = []"
| "type_hints_loop filepath (n # ns) =
     type_hints_node filepath n @ type_hints_loop filepath ns"

definition check_type_hints :: "node \<Rightarrow> string \<Rightarrow> NormError list" where
  "check_type_hints tree filepath = type_hints_loop filepath (walk tree)"

subsection \<open>Docstrings\<close>

text \<open>
  \<^verbatim>\<open>ast.get_docstring\<close> for a node with the body \<open>b\<close> (the source calls it on classes and
  functions, which the library accepts): the first statement must be an expression
  statement whose value is a string constant; the text is then cleaned by
  \<^verbatim>\<open>inspect.cleandoc\<close>, which is the parameter \<open>cleandoc\<close>.
\<close>

fun get_docstring :: "(string \<Rightarrow> string) \<Rightarrow> node list \<Rightarrow> string option" where
  "get_docstring cleandoc (Expr (Constant (StrValue text)) # rest) = Some (cleandoc text)"
| "get_docstring cleandoc b = None"

text \<open>\<^verbatim>\<open>not ast.get_docstring(node)\<close>: \<^verbatim>\<open>None\<close> and the empty string are false.\<close>

definition not_docstring :: "(string \<Rightarrow> string) \<Rightarrow> node list \<Rightarrow> bool" where
  "not_docstring cleandoc b =
     (case get_docstring cleandoc b of None \<Rightarrow> True | Some text \<Rightarrow> text = [])"

text \<open>The body of the loop of \<^verbatim>\<open>_check_docstrings\<close>, for one node of the walk.\<close>

fun docstrings_node :: "(string \<Rightarrow> string) \<Rightarrow> string \<Rightarrow> node \<Rightarrow> NormError list" where
  "docstrings_node cleandoc filepath (ClassDef nm b ln co) =
     (if not_docstring cleandoc b then
        [mkNormError filepath ln co ''DOCSTRING''
           (''Class '' @ quoted nm @ '' missing docstring'')]
      else [])"
| "docstrings_node cleandoc filepath (FunctionDef nm ar b rt ln co) =
     (let is_magic = (startswith nm ''__'' \<and> endswith nm ''__'' \<and> nm \<noteq> ''__init__'')
      in if is_magic then []
         else if not_docstring cleandoc b then
           [mkNormError filepath ln co ''DOCSTRING''
              (''Function '' @ quoted nm @ '' missing docstring'')]
         else [])"
| "docstrings_node cleandoc filepath n = []"

fun docstrings_loop :: "(string \<Rightarrow> string) \<Rightarrow> string \<Rightarrow> node list \<Rightarrow> NormError list" where
  "docstrings_loop cleandoc filepath [] = []"
| "docstrings_loop cleandoc filepath (n # ns) =
     docstrings_node cleandoc filepath n @ docstrings_loop cleandoc filepath ns"

definition check_docstrings :: "(string \<Rightarrow> string) \<Rightarrow> node \<Rightarrow> string \<Rightarrow> NormError list" where
  "check_docstrings cleandoc tree filepath = docstrings_loop cleandoc filepath (walk tree)"

section \<open>The external linter\<close>

subsection \<open>String operations of the runtime\<close>

text \<open>
  Characters are the code points below 256. \<open>isspace\<close> is \<^verbatim>\<open>str.isspace\<close> on one character of
  that range, \<open>strip\<close> is \<^verbatim>\<open>str.strip()\<close>.
\<close>

definition isspace :: "char \<Rightarrow> bool" where
  "isspace c =
     (let n = (of_char c :: nat)
      in (9 \<le> n \<and> n \<le> 13) \<or> (28 \<le> n \<and> n \<le> 32) \<or> n = 133 \<or> n = 160)"

definition strip :: "string \<Rightarrow> string" where
  "strip s = rev (dropWhile isspace (rev (dropWhile isspace s)))"

text \<open>
  \<^verbatim>\<open>s.split(sep, maxsplit)\<close> for a separator of one character: at most \<open>maxsplit\<close> cuts, from
  the left. \<open>split_all\<close> is the call without \<open>maxsplit\<close>: a string has no more separators than
  characters.
\<close>

fun split_max :: "char \<Rightarrow> nat \<Rightarrow> string \<Rightarrow> string list" where
  "split_max sep 0 s = [s]"
| "split_max sep (Suc k) s =
     (if sep \<in> set s then
        takeWhile (\<lambda>c. c \<noteq> sep) s # split_max sep k (tl (dropWhile (\<lambda>c. c \<noteq> sep) s))
      else [s])"

definition split_all :: "char \<Rightarrow> string \<Rightarrow> string list" where
  "split_all sep s = split_max sep (length s) s"

text \<open>
  \<^verbatim>\<open>str(n)\<close> for an integer, and the two format specifications of the report: a string in a
  field of a minimal width is padded on the right, an integer on the left.
\<close>

fun str_nat :: "nat \<Rightarrow> string" where
  "str_nat n =
     (if n < 10 then [char_of (48 + n)]
      else str_nat (n div 10) @ [char_of (48 + n mod 10)])"

definition str_int :: "int \<Rightarrow> string" where
  "str_int i = (if i < 0 then CHR ''-'' # str_nat (nat (- i)) else str_nat (nat i))"

definition format_str :: "nat \<Rightarrow> string \<Rightarrow> string" where
  "format_str width s = s @ replicate (width - length s) CHR '' ''"

definition format_int :: "nat \<Rightarrow> int \<Rightarrow> string" where
  "format_int width i = replicate (width - length (str_int i)) CHR '' '' @ str_int i"

text \<open>
  \<^verbatim>\<open>repr(s)\<close> of a string: between single quotes, or double quotes when the string has a
  single quote and no double quote; the quote and the backslash are escaped, tab, newline
  and carriage return have their letters, every other character that is not printable is
  written \<^verbatim>\<open>\xhh\<close>.
\<close>

definition hex_digit :: "nat \<Rightarrow> char" where
  "hex_digit d = (if d < 10 then char_of (48 + d) else char_of (87 + d))"

definition isprintable :: "char \<Rightarrow> bool" where
  "isprintable c =
     (let n = (of_char c :: nat)
      in (32 \<le> n \<and> n < 127) \<or> (161 \<le> n \<and> n \<noteq> 173))"

definition repr_char :: "char \<Rightarrow> char \<Rightarrow> string" where
  "repr_char q c =
     (if c = q \<or> c = CHR 0x5C then [CHR 0x5C, c]
      else if c = CHR 0x09 then [CHR 0x5C, CHR ''t'']
      else if c = CHR 0x0A then [CHR 0x5C, CHR ''n'']
      else if c = CHR 0x0D then [CHR 0x5C, CHR ''r'']
      else if isprintable c then [c]
      else [CHR 0x5C, CHR ''x'', hex_digit (of_char c div 16), hex_digit (of_char c mod 16)])"

definition repr :: "string \<Rightarrow> string" where
  "repr s =
     (let q = (if CHR 0x27 \<in> set s \<and> CHR 0x22 \<notin> set s then CHR 0x22 else CHR 0x27)
      in [q] @ concat (map (repr_char q) s) @ [q])"

text \<open>
  \<^verbatim>\<open>int(s)\<close> for a string: white space around the literal is dropped; then an optional sign
  and decimal digits, where single underscores may stand between digits. Anything else
  raises \<^verbatim>\<open>ValueError\<close>, which the model gives as \<open>OtherException\<close> with the text of the
  interpreter (the literal is shown by at most 200 characters of its \<open>repr\<close>). An
  interpreter with the default limit refuses a literal of more than 4300 digits.
\<close>

definition isdigit :: "char \<Rightarrow> bool" where
  "isdigit c = (48 \<le> (of_char c :: nat) \<and> (of_char c :: nat) \<le> 57)"

fun digits_ok :: "string \<Rightarrow> bool" where
  "digits_ok [] = False"
| "digits_ok [c] = isdigit c"
| "digits_ok (c # d # rest) =
     (if isdigit c then digits_ok (d # rest)
      else c = CHR ''_'' \<and> isdigit d \<and> digits_ok (d # rest))"

definition literal_ok :: "string \<Rightarrow> bool" where
  "literal_ok s = (s \<noteq> [] \<and> isdigit (hd s) \<and> digits_ok s)"

definition digits_value :: "string \<Rightarrow> int" where
  "digits_value s = foldl (\<lambda>v c. 10 * v + (of_char c - 48)) 0 (filter isdigit s)"

definition max_str_digits :: nat where
  "max_str_digits = 4300"

definition py_int :: "string \<Rightarrow> exn + int" where
  "py_int s =
     (let t = strip s;
          neg = (t \<noteq> [] \<and> hd t = CHR ''-'');
          u = (if t \<noteq> [] \<and> (hd t = CHR ''-'' \<or> hd t = CHR ''+'') then tl t else t)
      in if \<not> literal_ok u then
           Inl (OtherException
                  (''invalid literal for int() with base 10: '' @ take 200 (repr s)))
         else if max_str_digits < length (filter isdigit u) then
           Inl (OtherException
                  (''Exceeds the limit ('' @ str_nat max_str_digits @
                   '' digits) for integer string conversion: value has '' @
                   str_nat (length (filter isdigit u)) @
                   '' digits; use sys.set_int_max_str_digits() to increase the limit''))
         else Inr (if neg then - digits_value u else digits_value u))"

subsection \<open>The runtime\<close>

text \<open>
  What the interpreter, its libraries and the operating system answer. Paths are strings.
  \<^item> \<open>cleandoc\<close>: \<^verbatim>\<open>inspect.cleandoc\<close>;
  \<^item> \<open>read_file p\<close>: opening \<open>p\<close> and reading all of it, as UTF-8;
  \<^item> \<open>ast_parse content filename\<close>: \<^verbatim>\<open>ast.parse\<close>;
  \<^item> \<open>subprocess_run argv\<close>: \<^verbatim>\<open>subprocess.run\<close> with captured text output; the result is
    the standard output of the process;
  \<^item> \<open>is_file\<close>, \<open>is_dir\<close>, \<open>suffix\<close>: the methods of \<^verbatim>\<open>Path(p)\<close>; \<open>str_path p\<close> is
    \<^verbatim>\<open>str(Path(p))\<close>; \<open>rglob_py p\<close> is the list of \<^verbatim>\<open>str(f)\<close> for \<open>f\<close> in
    \<^verbatim>\<open>Path(p).rglob('*.py')\<close>, in the order of the traversal.
\<close>

record runtime =
  cleandoc :: "string \<Rightarrow> string"
  read_file :: "string \<Rightarrow> exn + string"
  ast_parse :: "string \<Rightarrow> string \<Rightarrow> exn + node"
  subprocess_run :: "string list \<Rightarrow> exn + string"
  is_file :: "string \<Rightarrow> bool"
  is_dir :: "string \<Rightarrow> bool"
  suffix :: "string \<Rightarrow> string"
  str_path :: "string \<Rightarrow> string"
  rglob_py :: "string \<Rightarrow> string list"

subsection \<open>The adapter\<close>

text \<open>
  The body of the loop of \<^verbatim>\<open>_check_flake8\<close> for one line that is not empty: \<open>Inr None\<close> when
  the line has fewer than four parts, \<open>Inr (Some err)\<close> for the error appended, \<open>Inl e\<close>
  when \<^verbatim>\<open>int\<close> raises.
\<close>

definition flake8_line :: "string \<Rightarrow> exn + NormError option" where
  "flake8_line l =
     (let parts = split_max CHR '':'' 3 l
      in if length parts \<ge> 4 then
           (let file_path = parts ! 0
            in case py_int (parts ! 1) of
                 Inl e \<Rightarrow> Inl e
               | Inr line_num \<Rightarrow>
                   (case py_int (parts ! 2) of
                      Inl e \<Rightarrow> Inl e
                    | Inr col_num \<Rightarrow>
                        (let msg_parts = split_max CHR '' '' 1 (strip (parts ! 3));
                             code = msg_parts ! 0;
                             message = (if length msg_parts > 1 then msg_parts ! 1 else [])
                         in Inr (Some (mkNormError file_path line_num col_num code message)))))
         else Inr None)"

text \<open>
  The loop over the lines of the output. The list \<open>errors\<close> is created before the
  \<^verbatim>\<open>try\<close> and returned after it, so an exception in the loop leaves in it what was appended
  before: the loop returns the list and the exception, if any.
\<close>

fun flake8_loop :: "string list \<Rightarrow> NormError list \<Rightarrow> NormError list \<times> exn option" where
  "flake8_loop [] errors = (errors, None)"
| "flake8_loop (l # ls) errors =
     (if l = [] then flake8_loop ls errors
      else case flake8_line l of
             Inl e \<Rightarrow> (errors, Some e)
           | Inr None \<Rightarrow> flake8_loop ls errors
           | Inr (Some err) \<Rightarrow> flake8_loop ls (errors @ [err]))"

definition esc :: string where
  "esc = [CHR 0x1B]"

definition format_arg :: string where
  "format_arg = ''--format=%(path)s:%(row)d:%(col)d: %(code)s %(text)s''"

definition warning_not_installed :: string where
  "warning_not_installed =
     esc @ ''[33mWarning: flake8 not installed. Install with: pip install flake8'' @
     esc @ ''[0m''"

definition warning_failed :: "exn \<Rightarrow> string" where
  "warning_failed e = esc @ ''[33mWarning: flake8 check failed: '' @ str_exn e @ esc @ ''[0m''"

text \<open>\<^verbatim>\<open>_check_flake8\<close>: the errors returned and the lines printed.\<close>

definition check_flake8 :: "runtime \<Rightarrow> string \<Rightarrow> NormError list \<times> string list" where
  "check_flake8 rt filepath =
     (case subprocess_run rt [''flake8'', filepath, format_arg] of
        Inl (FileNotFoundError txt) \<Rightarrow> ([], [warning_not_installed])
      | Inl e \<Rightarrow> ([], [warning_failed e])
      | Inr stdout \<Rightarrow>
          if stdout \<noteq> [] then
            (case flake8_loop (split_all CHR 0x0A (strip stdout)) [] of
               (errors, None) \<Rightarrow> (errors, [])
             | (errors, Some e) \<Rightarrow> (errors, [warning_failed e]))
          else ([], []))"

section \<open>The checker\<close>

text \<open>\<^verbatim>\<open>x or 0\<close> for an optional integer.\<close>

definition or_0 :: "int option \<Rightarrow> int" where
  "or_0 x = (case x of None \<Rightarrow> 0 | Some v \<Rightarrow> if v \<noteq> 0 then v else 0)"

text \<open>The two handlers of \<^verbatim>\<open>check_file\<close>; \<open>errors\<close> is the list at the time of the exception.\<close>

fun check_file_except :: "string \<Rightarrow> NormError list \<Rightarrow> exn \<Rightarrow> NormError list" where
  "check_file_except filepath errors (SyntaxError lineno offset msg txt) =
     errors @ [mkNormError filepath (or_0 lineno) (or_0 offset) ''SYNTAX''
                 (''Syntax error: '' @ msg)]"
| "check_file_except filepath errors e =
     errors @ [mkNormError filepath 0 0 ''FATAL'' (''Cannot check file: '' @ str_exn e)]"

text \<open>
  \<^verbatim>\<open>check_file\<close>: the errors returned and the lines printed (by the adapter). The three
  checks raise nothing, so the handlers are reached from reading and parsing only, with
  the empty list.
\<close>

definition check_file :: "runtime \<Rightarrow> string \<Rightarrow> NormError list \<times> string list" where
  "check_file rt filepath =
     (case read_file rt filepath of
        Inl e \<Rightarrow> (check_file_except filepath [] e, [])
      | Inr content \<Rightarrow>
          (case ast_parse rt content filepath of
             Inl e \<Rightarrow> (check_file_except filepath [] e, [])
           | Inr tree \<Rightarrow>
               (let errors = [] @ check_type_hints tree filepath;
                    errors = errors @ check_docstrings (cleandoc rt) tree filepath;
                    (found, out) = check_flake8 rt filepath;
                    errors = errors @ found
                in (errors, out))))"

section \<open>The reporter\<close>

text \<open>
  The dictionary \<^verbatim>\<open>files\<close> keeps its keys in the order of their insertion: an association
  list. \<open>files_append\<close> is one round of the first loop of \<^verbatim>\<open>print_errors\<close>.
\<close>

fun files_append ::
  "(string \<times> NormError list) list \<Rightarrow> string \<Rightarrow> NormError \<Rightarrow> (string \<times> NormError list) list" where
  "files_append [] k e = [(k, [e])]"
| "files_append ((k', es) # rest) k e =
     (if k' = k then (k', es @ [e]) # rest else (k', es) # files_append rest k e)"

fun files_loop ::
  "(string \<times> NormError list) list \<Rightarrow> NormError list \<Rightarrow> (string \<times> NormError list) list" where
  "files_loop files [] = files"
| "files_loop files (e # es) = files_loop (files_append files (file' e) e) es"

text \<open>\<^verbatim>\<open>sorted(file_errors, key=lambda x: (x.line, x.col))\<close>: pairs compare lexicographically.\<close>

definition sorted_errors :: "NormError list \<Rightarrow> NormError list" where
  "sorted_errors file_errors = sort_key (\<lambda>x. (line x, col x)) file_errors"

definition error_line :: "NormError \<Rightarrow> string" where
  "error_line err =
     (let color = (if severity err = ''Error'' then esc @ ''[31m'' else esc @ ''[33m'')
      in color @ ''Error:'' @ format_str 12 (code err) @ '' '' @ esc @ ''[0m'' @
         ''(line: '' @ format_int 4 (line err) @ '', col: '' @ format_int 3 (col err) @
         ''): '' @ message err)"

definition print_file :: "string \<times> NormError list \<Rightarrow> string list" where
  "print_file entry =
     (case entry of (filepath, file_errors) \<Rightarrow>
        [esc @ ''[1m'' @ filepath @ esc @ ''[0m'']
        @ map error_line (sorted_errors file_errors)
        @ [[]])"

text \<open>\<^verbatim>\<open>print_errors\<close>: the lines printed.\<close>

definition print_errors :: "NormError list \<Rightarrow> string list" where
  "print_errors errors =
     (if errors = [] then []
      else concat (map print_file (files_loop [] errors)))"

section \<open>The runner\<close>

text \<open>The attributes of a \<^verbatim>\<open>PythonNorminette\<close> object.\<close>

record PythonNorminette =
  errors :: "NormError list"
  files_checked :: int
  total_errors :: int

text \<open>
  The state of the loops of \<^verbatim>\<open>run\<close>: the object, the local list \<^verbatim>\<open>all_errors\<close> and the lines
  printed so far.
\<close>

type_synonym run_state = "PythonNorminette \<times> NormError list \<times> string list"

definition run_check :: "runtime \<Rightarrow> string \<Rightarrow> run_state \<Rightarrow> run_state" where
  "run_check rt filepath st =
     (case st of (self, all_errors, out) \<Rightarrow>
        (let self = self\<lparr>files_checked := files_checked self + 1\<rparr>;
             (found, printed) = check_file rt filepath
         in (self, all_errors @ found, out @ printed)))"

fun rglob_loop :: "runtime \<Rightarrow> string list \<Rightarrow> run_state \<Rightarrow> run_state" where
  "rglob_loop rt [] st = st"
| "rglob_loop rt (py_file # rest) st = rglob_loop rt rest (run_check rt py_file st)"

fun paths_loop :: "runtime \<Rightarrow> string list \<Rightarrow> run_state \<Rightarrow> run_state" where
  "paths_loop rt [] st = st"
| "paths_loop rt (path_str # rest) st =
     (if is_file rt path_str then
        (if suffix rt path_str = ''.py'' then
           paths_loop rt rest (run_check rt (str_path rt path_str) st)
         else paths_loop rt rest st)
      else if is_dir rt path_str then
        paths_loop rt rest (rglob_loop rt (rglob_py rt path_str) st)
      else paths_loop rt rest st)"

definition separator :: string where
  "separator = esc @ ''[1m'' @ replicate 60 CHR ''='' @ esc @ ''[0m''"

text \<open>The two marks of the summary are written as their UTF-8 bytes.\<close>

definition check_mark :: string where
  "check_mark = [CHR 0xE2, CHR 0x9C, CHR 0x93]"

definition cross_mark :: string where
  "cross_mark = [CHR 0xE2, CHR 0x9C, CHR 0x97]"

text \<open>\<^verbatim>\<open>run\<close>: the return code, the object after the call and the lines printed.\<close>

definition run :: "runtime \<Rightarrow> PythonNorminette \<Rightarrow> string list \<Rightarrow> int \<times> PythonNorminette \<times> string list" where
  "run rt self paths =
     (case paths_loop rt paths (self, [], []) of (self, all_errors, out) \<Rightarrow>
        (let self = self\<lparr>total_errors := int (length all_errors)\<rparr>;
             self = self\<lparr>errors := all_errors\<rparr>;
             out = out @ print_errors all_errors;
             out = out @ [separator]
         in if total_errors self = 0 then
              (0, self,
               out @ [esc @ ''[32m'' @ check_mark @ '' Norme: OK! ('' @
                      str_int (files_checked self) @ '' file(s) checked)'' @ esc @ ''[0m''])
            else
              (1, self,
               out @ [esc @ ''[31m'' @ cross_mark @ '' Norme: '' @
                      str_int (total_errors self) @ '' error(s) in '' @
                      str_int (files_checked self) @ '' file(s)'' @ esc @ ''[0m''])))"

section \<open>Example inputs\<close>

text \<open>A constructor with two parameters and neither annotation nor docstring, in a class.\<close>

definition ex_init :: node where
  "ex_init = FunctionDef ''__init__''
     \<lparr>posonlyargs = [],
      args = [\<lparr>arg = ''self'', annotation = None\<rparr>, \<lparr>arg = ''x'', annotation = None\<rparr>],
      vararg = None, kwonlyargs = [], kw_defaults = [], kwarg = None, defaults = []\<rparr>
     [] None 2 4"

definition ex_class_module :: node where
  "ex_class_module = Module [ClassDef ''A'' [ex_init] 1 0]"

text \<open>Two parameters without annotation, no return annotation, no docstring.\<close>

definition ex_f :: node where
  "ex_f = FunctionDef ''f''
     \<lparr>posonlyargs = [],
      args = [\<lparr>arg = ''x'', annotation = None\<rparr>, \<lparr>arg = ''y'', annotation = None\<rparr>],
      vararg = None, kwonlyargs = [], kw_defaults = [], kwarg = None, defaults = []\<rparr>
     [] None 1 0"

text \<open>An async function with a parameter, without annotations and docstring.\<close>

definition ex_async :: node where
  "ex_async = AsyncFunctionDef ''fetch''
     \<lparr>posonlyargs = [], args = [\<lparr>arg = ''url'', annotation = None\<rparr>],
      vararg = None, kwonlyargs = [], kw_defaults = [], kwarg = None, defaults = []\<rparr>
     [] None 1 0"

text \<open>A special method other than the constructor, and a class with both methods.\<close>

definition ex_method :: node where
  "ex_method = FunctionDef ''__repr__''
     \<lparr>posonlyargs = [], args = [\<lparr>arg = ''self'', annotation = None\<rparr>],
      vararg = None, kwonlyargs = [], kw_defaults = [], kwarg = None, defaults = []\<rparr>
     [] None 3 4"

definition ex_class2 :: node where
  "ex_class2 = ClassDef ''A'' [ex_init, ex_method] 1 0"

text \<open>
  A runtime with three files: \<^verbatim>\<open>a.py\<close> holds the function \<open>ex_f\<close>, \<^verbatim>\<open>bad.py\<close> does not parse,
  \<^verbatim>\<open>src/empty.py\<close> is empty; \<^verbatim>\<open>notes.txt\<close> is a file of another kind and \<^verbatim>\<open>src\<close> a directory.
  The parameter is what running flake8 gives.
\<close>

definition ex_runtime :: "exn + string \<Rightarrow> runtime" where
  "ex_runtime flake8 = \<lparr>
     cleandoc = (\<lambda>text. text),
     read_file = (\<lambda>p. if p = ''a.py'' then Inr ''def f(x, y): pass''
                       else if p = ''bad.py'' then Inr ''def f(:''
                       else if p = ''src/empty.py'' then Inr []
                       else Inl (FileNotFoundError ''[Errno 2] No such file or directory'')),
     ast_parse = (\<lambda>content filename.
                    if content = ''def f(x, y): pass'' then Inr (Module [ex_f])
                    else if content = [] then Inr (Module [])
                    else Inl (SyntaxError (Some 1) (Some 7) ''invalid syntax''
                                (''invalid syntax ('' @ filename @ '', line 1)''))),
     subprocess_run = (\<lambda>argv. flake8),
     is_file = (\<lambda>p. p = ''a.py'' \<or> p = ''bad.py'' \<or> p = ''notes.txt''),
     is_dir = (\<lambda>p. p = ''src''),
     suffix = (\<lambda>p. if p = ''notes.txt'' then ''.txt'' else if p = ''src'' then [] else ''.py''),
     str_path = (\<lambda>p. p),
     rglob_py = (\<lambda>p. if p = ''src'' then [''src/empty.py''] else [])\<rparr>"

text \<open>The runtime without flake8.\<close>

definition ex_rt :: runtime where
  "ex_rt = ex_runtime (Inl (FileNotFoundError ''[Errno 2] No such file or directory''))"

text \<open>A new checker object.\<close>

definition ex_self :: PythonNorminette where
  "ex_self = \<lparr>errors = [], files_checked = 0, total_errors = 0\<rparr>"







section \<open>Notions used in the statements\<close>

text \<open>The message of the error for a missing return annotation of the function \<open>nm\<close>.\<close>

definition return_message :: "string \<Rightarrow> string" where
  "return_message nm = ''Function '' @ quoted nm @ '' missing return type hint''"

text \<open>The message of the error for the parameter \<open>a\<close> of the function \<open>nm\<close>.\<close>

definition argument_message :: "string \<Rightarrow> string \<Rightarrow> string" where
  "argument_message a nm =
     ''Argument '' @ quoted a @ '' in function '' @ quoted nm @ '' missing type hint''"

text \<open>A definition of a function named \<open>nm\<close> that has no return annotation.\<close>

fun lacks_return :: "string \<Rightarrow> node \<Rightarrow> bool" where
  "lacks_return nm (FunctionDef nm' ar b rt ln co) = (nm' = nm \<and> rt = None)"
| "lacks_return nm n = False"

fun is_async :: "node \<Rightarrow> bool" where
  "is_async (AsyncFunctionDef nm ar b rt ln co) = True"
| "is_async n = False"


text \<open>\<^verbatim>\<open>def h(p, /, *args, key, **kwargs) -> T\<close>, no parameter annotated.\<close>

definition ex_h :: node where
  "ex_h = FunctionDef ''h''
     \<lparr>posonlyargs = [\<lparr>arg = ''p'', annotation = None\<rparr>],
      args = [],
      vararg = Some \<lparr>arg = ''args'', annotation = None\<rparr>,
      kwonlyargs = [\<lparr>arg = ''key'', annotation = None\<rparr>],
      kw_defaults = [None],
      kwarg = Some \<lparr>arg = ''kwargs'', annotation = None\<rparr>,
      defaults = []\<rparr>
     [] (Some OtherExpr) 1 0"


text \<open>The body \<open>b\<close> starts with an expression statement whose value is a string constant.\<close>

fun has_docstring_statement :: "node list \<Rightarrow> bool" where
  "has_docstring_statement (Expr (Constant (StrValue text)) # rest) = True"
| "has_docstring_statement b = False"


text \<open>
  The files that \<^verbatim>\<open>run\<close> checks for a list of path arguments, in the order of the checks, and
  the errors of all of them.
\<close>

definition checked_files :: "runtime \<Rightarrow> string list \<Rightarrow> string list" where
  "checked_files rt paths =
     concat (map (\<lambda>p. if is_file rt p then (if suffix rt p = ''.py'' then [str_path rt p] else [])
                       else if is_dir rt p then rglob_py rt p else []) paths)"

definition all_findings :: "runtime \<Rightarrow> string list \<Rightarrow> NormError list" where
  "all_findings rt paths = concat (map (\<lambda>f. fst (check_file rt f)) (checked_files rt paths))"


text \<open>
  What one line of the output adds to the errors, and whether the loop passes the line
  without an exception.
\<close>

fun parsed_line :: "string \<Rightarrow> NormError list" where
  "parsed_line l =
     (if l = [] then [] else case flake8_line l of Inr (Some err) \<Rightarrow> [err] | _ \<Rightarrow> [])"

definition line_passes :: "string \<Rightarrow> bool" where
  "line_passes l = (l = [] \<or> (case flake8_line l of Inl e \<Rightarrow> False | Inr r \<Rightarrow> True))"




section \<open>Properties of the rule checks\<close>

subsection \<open>The loops and the walk\<close>

lemma type_hints_loop_append:
  "type_hints_loop fp (xs @ ys) = type_hints_loop fp xs @ type_hints_loop fp ys"
  by (induction xs) simp_all

lemma docstrings_loop_append:
  "docstrings_loop cd fp (xs @ ys) = docstrings_loop cd fp xs @ docstrings_loop cd fp ys"
  by (induction xs) simp_all

lemma type_hints_loop_concat:
  "type_hints_loop fp ns = concat (map (type_hints_node fp) ns)"
  by (induction ns) simp_all

lemma docstrings_loop_concat:
  "docstrings_loop cd fp ns = concat (map (docstrings_node cd fp) ns)"
  by (induction ns) simp_all

text \<open>The walk holds the root and, with a node, its children: every node of the tree.\<close>

lemma walk_todo_closed:
  "set todo \<subseteq> set (walk_todo todo) \<and>
   (\<forall>n \<in> set (walk_todo todo). set (iter_child_nodes n) \<subseteq> set (walk_todo todo))"
proof (induction todo rule: walk_todo.induct)
  case 1
  then show ?case by simp
next
  case (2 n todo)
  then show ?case by auto
qed

lemma walk_root: "tree \<in> set (walk tree)"
  unfolding walk_def using walk_todo_closed [of "[tree]"] by (simp del: walk_todo.simps)

lemma walk_children: "n \<in> set (walk tree) \<Longrightarrow> set (iter_child_nodes n) \<subseteq> set (walk tree)"
  unfolding walk_def using walk_todo_closed [of "[tree]"] by blast

lemma walk_ex_class_module:
  "walk ex_class_module = [ex_class_module, ClassDef ''A'' [ex_init] 1 0] @ ex_init # []"
  by (simp add: walk_def ex_class_module_def ex_init_def)

subsection \<open>Special methods and the type-hint check\<close>

text \<open>
  Claim C5. A function definition whose name starts and ends with two underscores, the
  constructor \<^verbatim>\<open>__init__\<close> among them, gets no error from the type-hint check, neither for its
  return annotation nor for a parameter: the body of the loop gives nothing for such a
  node, and the result for a tree is what the loop gives for the other nodes of the walk.
\<close>

theorem dunder_exempt_from_type_hints:
  assumes "startswith nm ''__''" and "endswith nm ''__''"
  shows "type_hints_node fp (FunctionDef nm ar b rt ln co) = [] \<and>
         (walk tree = pre @ FunctionDef nm ar b rt ln co # post \<longrightarrow>
            check_type_hints tree fp = type_hints_loop fp pre @ type_hints_loop fp post)"
  using assms by (simp add: check_type_hints_def type_hints_loop_append)

theorem dunder_exempt_from_type_hints_witness:
  "startswith ''__init__'' ''__'' \<and> endswith ''__init__'' ''__'' \<and>
   walk ex_class_module = [ex_class_module, ClassDef ''A'' [ex_init] 1 0] @ ex_init # [] \<and>
   type_hints_node ''a.py'' ex_init = [] \<and>
   check_type_hints ex_class_module ''a.py'' = []"
proof -
  have s: "startswith ''__init__'' ''__''" by (simp add: startswith_def)
  have e: "endswith ''__init__'' ''__''" by (simp add: endswith_def)
  note w = walk_ex_class_module
  from dunder_exempt_from_type_hints [OF s e, of "''a.py''" _ "[]" None 2 4
      ex_class_module "[ex_class_module, ClassDef ''A'' [ex_init] 1 0]" "[]"] w
  have "type_hints_node ''a.py'' ex_init = [] \<and> check_type_hints ex_class_module ''a.py'' = []"
    by (simp add: ex_init_def ex_class_module_def)
  with s e w show ?thesis by blast
qed

subsection \<open>Async functions\<close>

lemma type_hints_loop_skip_async:
  "type_hints_loop fp (filter (\<lambda>n. \<not> is_async n) ns) = type_hints_loop fp ns"
proof (induction ns)
  case Nil
  then show ?case by simp
next
  case (Cons n ns)
  then show ?case by (cases n) simp_all
qed

lemma docstrings_loop_skip_async:
  "docstrings_loop cd fp (filter (\<lambda>n. \<not> is_async n) ns) = docstrings_loop cd fp ns"
proof (induction ns)
  case Nil
  then show ?case by simp
next
  case (Cons n ns)
  then show ?case by (cases n) simp_all
qed

text \<open>
  Claim C10. Neither check sees an async function: for such a node the body of either loop
  gives no error, whatever its annotations, parameters and docstring are, and either check
  gives for a tree what its loop gives when the async functions are taken out of the walk.
\<close>

theorem async_invisible:
  "type_hints_node fp (AsyncFunctionDef nm ar b rt ln co) = [] \<and>
   docstrings_node cd fp (AsyncFunctionDef nm ar b rt ln co) = [] \<and>
   check_type_hints tree fp = type_hints_loop fp (filter (\<lambda>n. \<not> is_async n) (walk tree)) \<and>
   check_docstrings cd tree fp = docstrings_loop cd fp (filter (\<lambda>n. \<not> is_async n) (walk tree))"
  by (simp add: check_type_hints_def check_docstrings_def type_hints_loop_skip_async
      docstrings_loop_skip_async)

theorem async_invisible_witness:
  "check_type_hints (Module [ex_async]) ''a.py'' = [] \<and>
   check_docstrings (\<lambda>text. text) (Module [ex_async]) ''a.py'' = []"
  using async_invisible [of "''a.py''" "''fetch''" _ "[]" None 1 0 "\<lambda>text. text"
      "Module [ex_async]"]
  by (simp add: walk_def ex_async_def)

subsection \<open>Missing return annotations\<close>

lemma type_hints_node_FunctionDef:
  "type_hints_node fp (FunctionDef nm ar b rt ln co) =
     (if startswith nm ''__'' \<and> endswith nm ''__'' then []
      else (if rt = None then [mkNormError fp ln co ''TYPE_HINT'' (return_message nm)] else [])
           @ args_loop fp nm ln co (args ar))"
  by (simp add: return_message_def)

lemma message_mkNormError: "message (mkNormError fp ln co cd m) = m"
  by (simp add: mkNormError_def)

lemma return_message_inj: "return_message nm' = return_message nm \<longleftrightarrow> nm' = nm"
  by (simp add: return_message_def quoted_def)

lemma args_loop_no_return_message:
  "filter (\<lambda>e. message e = return_message nm') (args_loop fp nm ln co as) = []"
  by (induction as) (simp_all add: return_message_def mkNormError_def)

lemma type_hints_node_return_count:
  assumes "\<not> (startswith nm ''__'' \<and> endswith nm ''__'')"
  shows "length (filter (\<lambda>e. message e = return_message nm) (type_hints_node fp n)) =
         (if lacks_return nm n then 1 else 0)"
proof (cases n)
  case (FunctionDef nm' ar b rt ln co)
  show ?thesis
    unfolding FunctionDef type_hints_node_FunctionDef
    using assms
    by (auto simp: args_loop_no_return_message return_message_inj message_mkNormError)
qed simp_all

lemma type_hints_loop_return_count:
  assumes "\<not> (startswith nm ''__'' \<and> endswith nm ''__'')"
  shows "length (filter (\<lambda>e. message e = return_message nm) (type_hints_loop fp ns)) =
         length (filter (lacks_return nm) ns)"
proof (induction ns)
  case Nil
  then show ?case by simp
next
  case (Cons n ns)
  then show ?case using type_hints_node_return_count [OF assms, of fp n] by simp
qed

text \<open>
  Claim C3. For a function whose name is not that of a special method and that has no
  return annotation, the type-hint check gives exactly one error that names the function
  as missing its return type hint, at the position of the declaration, whatever the
  parameters are. For a tree, the errors with that message are as many as the definitions
  of that name without return annotation in the walk.
\<close>

theorem missing_return_exactly_one:
  assumes "\<not> (startswith nm ''__'' \<and> endswith nm ''__'')"
  shows "filter (\<lambda>e. message e = return_message nm)
           (type_hints_node fp (FunctionDef nm ar b None ln co)) =
           [mkNormError fp ln co ''TYPE_HINT'' (return_message nm)] \<and>
         length (filter (\<lambda>e. message e = return_message nm) (check_type_hints tree fp)) =
           length (filter (lacks_return nm) (walk tree))"
proof -
  have "filter (\<lambda>e. message e = return_message nm)
           (type_hints_node fp (FunctionDef nm ar b None ln co)) =
           [mkNormError fp ln co ''TYPE_HINT'' (return_message nm)]"
    unfolding type_hints_node_FunctionDef using assms
    by (auto simp: args_loop_no_return_message message_mkNormError)
  then show ?thesis
    using type_hints_loop_return_count [OF assms] by (simp add: check_type_hints_def)
qed

theorem missing_return_exactly_one_witness:
  "\<not> (startswith ''f'' ''__'' \<and> endswith ''f'' ''__'') \<and>
   filter (\<lambda>e. message e = return_message ''f'') (type_hints_node ''a.py'' ex_f) =
     [mkNormError ''a.py'' 1 0 ''TYPE_HINT'' (return_message ''f'')] \<and>
   length (type_hints_node ''a.py'' ex_f) = 3 \<and>
   length (filter (\<lambda>e. message e = return_message ''f'')
             (check_type_hints (Module [ex_f]) ''a.py'')) = 1"
proof -
  have h: "\<not> (startswith ''f'' ''__'' \<and> endswith ''f'' ''__'')"
    by (simp add: startswith_def)
  have w: "filter (lacks_return ''f'') (walk (Module [ex_f])) = [ex_f]"
    by (simp add: walk_def ex_f_def)
  have l: "length (type_hints_node ''a.py'' ex_f) = 3"
    by (simp add: ex_f_def startswith_def)
  from missing_return_exactly_one [OF h, of "''a.py''" _ "[]" 1 0 "Module [ex_f]"] w
  have "filter (\<lambda>e. message e = return_message ''f'') (type_hints_node ''a.py'' ex_f) =
     [mkNormError ''a.py'' 1 0 ''TYPE_HINT'' (return_message ''f'')] \<and>
     length (filter (\<lambda>e. message e = return_message ''f'')
             (check_type_hints (Module [ex_f]) ''a.py'')) = 1"
    by (simp add: ex_f_def)
  with h l show ?thesis by blast
qed

subsection \<open>Parameters without annotation\<close>


lemma args_loop_filter:
  "args_loop fp nm ln co as =
     map (\<lambda>a. mkNormError fp ln co ''TYPE_HINT'' (argument_message (arg a) nm))
       (filter (\<lambda>a. arg a \<noteq> ''self'' \<and> arg a \<noteq> ''cls'' \<and> annotation a = None) as)"
  by (induction as) (simp_all add: argument_message_def)




subsection \<open>The other kinds of parameters\<close>

lemma check_type_hints_origin:
  assumes "e \<in> set (check_type_hints tree fp)"
  shows "\<exists>nm ar b rt ln co. FunctionDef nm ar b rt ln co \<in> set (walk tree) \<and>
           (e = mkNormError fp ln co ''TYPE_HINT'' (return_message nm) \<or>
            (\<exists>a \<in> set (args ar). e = mkNormError fp ln co ''TYPE_HINT'' (argument_message (arg a) nm)))"
proof -
  from assms obtain n where n: "n \<in> set (walk tree)" and e: "e \<in> set (type_hints_node fp n)"
    by (auto simp: check_type_hints_def type_hints_loop_concat)
  show ?thesis
  proof (cases n)
    case (FunctionDef nm ar b rt ln co)
    from e have "e = mkNormError fp ln co ''TYPE_HINT'' (return_message nm) \<or>
            (\<exists>a \<in> set (args ar). e = mkNormError fp ln co ''TYPE_HINT'' (argument_message (arg a) nm))"
      unfolding FunctionDef type_hints_node_FunctionDef args_loop_filter
      by (auto split: if_splits)
    with n FunctionDef show ?thesis by blast
  qed (use e in simp_all)
qed

text \<open>
  Claim C9. Only the list \<^verbatim>\<open>args.args\<close> is inspected: the errors for a function stay the
  same whatever its keyword-only parameters, its \<^verbatim>\<open>*args\<close> and its \<^verbatim>\<open>**kwargs\<close> are (and its
  positional-only parameters), annotated or not; and every error of the check for a tree
  is the error for the return annotation of a function of the walk or the error for a
  parameter in the list \<^verbatim>\<open>args.args\<close> of such a function.
\<close>

theorem only_args_inspected:
  "type_hints_node fp
     (FunctionDef nm (ar\<lparr>posonlyargs := p, vararg := v, kwonlyargs := k, kwarg := w\<rparr>)
        b rt ln co) =
     type_hints_node fp (FunctionDef nm ar b rt ln co) \<and>
   (\<forall>e \<in> set (check_type_hints tree fp).
      \<exists>nm ar b rt ln co. FunctionDef nm ar b rt ln co \<in> set (walk tree) \<and>
        (e = mkNormError fp ln co ''TYPE_HINT'' (return_message nm) \<or>
         (\<exists>a \<in> set (args ar).
            e = mkNormError fp ln co ''TYPE_HINT'' (argument_message (arg a) nm))))"
  using check_type_hints_origin by simp


theorem only_args_inspected_witness:
  "type_hints_node ''a.py'' ex_h = [] \<and>
   check_type_hints (Module [ex_h]) ''a.py'' = [] \<and>
   mkNormError ''a.py'' 1 0 ''TYPE_HINT'' (argument_message ''y'' ''f'')
     \<in> set (check_type_hints (Module [ex_f]) ''a.py'') \<and>
   (\<exists>nm ar b rt ln co. FunctionDef nm ar b rt ln co \<in> set (walk (Module [ex_f])) \<and>
      (mkNormError ''a.py'' 1 0 ''TYPE_HINT'' (argument_message ''y'' ''f'') =
         mkNormError ''a.py'' ln co ''TYPE_HINT'' (return_message nm) \<or>
       (\<exists>a \<in> set (args ar).
          mkNormError ''a.py'' 1 0 ''TYPE_HINT'' (argument_message ''y'' ''f'') =
            mkNormError ''a.py'' ln co ''TYPE_HINT'' (argument_message (arg a) nm))))"
proof -
  let ?ar = "\<lparr>posonlyargs = [], args = [], vararg = None, kwonlyargs = [],
               kw_defaults = [None], kwarg = None, defaults = []\<rparr>"
  let ?e = "mkNormError ''a.py'' 1 0 ''TYPE_HINT'' (argument_message ''y'' ''f'')"
  have n: "type_hints_node ''a.py'' (FunctionDef ''h'' ?ar [] (Some OtherExpr) 1 0) = []"
    by (simp add: startswith_def)
  note t = only_args_inspected [where fp = "''a.py''" and nm = "''h''" and ar = ?ar
        and p = "[\<lparr>arg = ''p'', annotation = None\<rparr>]"
        and v = "Some \<lparr>arg = ''args'', annotation = None\<rparr>"
        and k = "[\<lparr>arg = ''key'', annotation = None\<rparr>]"
        and w = "Some \<lparr>arg = ''kwargs'', annotation = None\<rparr>"
        and b = "[]" and rt = "Some OtherExpr" and ln = 1 and co = 0 and tree = "Module [ex_f]"]
  have "type_hints_node ''a.py'' ex_h =
          type_hints_node ''a.py'' (FunctionDef ''h'' ?ar [] (Some OtherExpr) 1 0)"
    using t [THEN conjunct1] unfolding ex_h_def by simp
  with n have 1: "type_hints_node ''a.py'' ex_h = []" by simp
  then have 2: "check_type_hints (Module [ex_h]) ''a.py'' = []"
    by (simp add: check_type_hints_def walk_def ex_h_def)
  have 3: "?e \<in> set (check_type_hints (Module [ex_f]) ''a.py'')"
    by (simp add: check_type_hints_def walk_def ex_f_def startswith_def argument_message_def)
  note 4 = bspec [OF t [THEN conjunct2] 3]
  show ?thesis
    by (intro conjI) (rule 1, rule 2, rule 3, rule 4)
qed

subsection \<open>Docstrings\<close>

lemma not_docstring_without_statement:
  "\<not> has_docstring_statement b \<Longrightarrow> not_docstring cd b"
  by (induction cd b rule: get_docstring.induct) (simp_all add: not_docstring_def)

lemma node_errors_in_check_docstrings:
  "n \<in> set (walk tree) \<Longrightarrow> set (docstrings_node cd fp n) \<subseteq> set (check_docstrings cd tree fp)"
  by (auto simp: check_docstrings_def docstrings_loop_concat)

text \<open>
  Claim C6. The docstring check gives an error at the declaration for every class of the
  tree whose body does not start with a docstring, and for every function of the tree
  whose body does not start with a docstring and whose name is \<^verbatim>\<open>__init__\<close> or not that of a
  special method. For a special method other than \<^verbatim>\<open>__init__\<close> the body of the loop gives
  nothing, and the result for the tree is what the loop gives for the other nodes.
\<close>

theorem missing_docstrings_reported:
  "(ClassDef nm b ln co \<in> set (walk tree) \<and> \<not> has_docstring_statement b \<longrightarrow>
      docstrings_node cd fp (ClassDef nm b ln co) =
        [mkNormError fp ln co ''DOCSTRING'' (''Class '' @ quoted nm @ '' missing docstring'')] \<and>
      mkNormError fp ln co ''DOCSTRING'' (''Class '' @ quoted nm @ '' missing docstring'')
        \<in> set (check_docstrings cd tree fp)) \<and>
   (FunctionDef nm ar b rt ln co \<in> set (walk tree) \<and> \<not> has_docstring_statement b \<and>
    (nm = ''__init__'' \<or> \<not> (startswith nm ''__'' \<and> endswith nm ''__'')) \<longrightarrow>
      docstrings_node cd fp (FunctionDef nm ar b rt ln co) =
        [mkNormError fp ln co ''DOCSTRING'' (''Function '' @ quoted nm @ '' missing docstring'')] \<and>
      mkNormError fp ln co ''DOCSTRING'' (''Function '' @ quoted nm @ '' missing docstring'')
        \<in> set (check_docstrings cd tree fp)) \<and>
   (startswith nm ''__'' \<and> endswith nm ''__'' \<and> nm \<noteq> ''__init__'' \<longrightarrow>
      docstrings_node cd fp (FunctionDef nm ar b rt ln co) = [] \<and>
      (walk tree = pre @ FunctionDef nm ar b rt ln co # post \<longrightarrow>
         check_docstrings cd tree fp =
           docstrings_loop cd fp pre @ docstrings_loop cd fp post))"
proof (intro conjI impI)
  assume a: "ClassDef nm b ln co \<in> set (walk tree) \<and> \<not> has_docstring_statement b"
  then show c: "docstrings_node cd fp (ClassDef nm b ln co) =
        [mkNormError fp ln co ''DOCSTRING'' (''Class '' @ quoted nm @ '' missing docstring'')]"
    by (simp add: not_docstring_without_statement)
  show "mkNormError fp ln co ''DOCSTRING'' (''Class '' @ quoted nm @ '' missing docstring'')
        \<in> set (check_docstrings cd tree fp)"
    using a c node_errors_in_check_docstrings [of "ClassDef nm b ln co" tree cd fp]
    by (simp del: docstrings_node.simps)
next
  assume a: "FunctionDef nm ar b rt ln co \<in> set (walk tree) \<and> \<not> has_docstring_statement b \<and>
    (nm = ''__init__'' \<or> \<not> (startswith nm ''__'' \<and> endswith nm ''__''))"
  then show c: "docstrings_node cd fp (FunctionDef nm ar b rt ln co) =
        [mkNormError fp ln co ''DOCSTRING'' (''Function '' @ quoted nm @ '' missing docstring'')]"
    by (auto simp: not_docstring_without_statement)
  show "mkNormError fp ln co ''DOCSTRING'' (''Function '' @ quoted nm @ '' missing docstring'')
        \<in> set (check_docstrings cd tree fp)"
    using a c node_errors_in_check_docstrings [of "FunctionDef nm ar b rt ln co" tree cd fp]
    by (simp del: docstrings_node.simps)
next
  assume a: "startswith nm ''__'' \<and> endswith nm ''__'' \<and> nm \<noteq> ''__init__''"
  then show "docstrings_node cd fp (FunctionDef nm ar b rt ln co) = []" by simp
  assume "walk tree = pre @ FunctionDef nm ar b rt ln co # post"
  with a show "check_docstrings cd tree fp =
           docstrings_loop cd fp pre @ docstrings_loop cd fp post"
    by (simp add: check_docstrings_def docstrings_loop_append)
qed


lemma walk_ex_class2:
  "walk (Module [ex_class2]) = [Module [ex_class2], ex_class2, ex_init] @ ex_method # []"
  by (simp add: walk_def ex_class2_def ex_init_def ex_method_def)

theorem missing_docstrings_reported_witness:
  "ex_class2 \<in> set (walk (Module [ex_class2])) \<and>
   ex_init \<in> set (walk (Module [ex_class2])) \<and>
   \<not> has_docstring_statement [ex_init, ex_method] \<and> \<not> has_docstring_statement [] \<and>
   startswith ''__repr__'' ''__'' \<and> endswith ''__repr__'' ''__'' \<and> ''__repr__'' \<noteq> ''__init__'' \<and>
   check_docstrings (\<lambda>text. text) (Module [ex_class2]) ''a.py'' =
     [mkNormError ''a.py'' 1 0 ''DOCSTRING'' (''Class '' @ quoted ''A'' @ '' missing docstring''),
      mkNormError ''a.py'' 2 4 ''DOCSTRING''
        (''Function '' @ quoted ''__init__'' @ '' missing docstring'')]"
proof -
  let ?cd = "\<lambda>text :: string. text"
  let ?t = "Module [ex_class2]"
  let ?self = "\<lparr>posonlyargs = [], args = [\<lparr>arg = ''self'', annotation = None\<rparr>],
      vararg = None, kwonlyargs = [], kw_defaults = [], kwarg = None, defaults = []\<rparr>"
  let ?selfx = "\<lparr>posonlyargs = [],
      args = [\<lparr>arg = ''self'', annotation = None\<rparr>, \<lparr>arg = ''x'', annotation = None\<rparr>],
      vararg = None, kwonlyargs = [], kw_defaults = [], kwarg = None, defaults = []\<rparr>"
  note w = walk_ex_class2
  have m1: "ex_class2 \<in> set (walk ?t)" and m2: "ex_init \<in> set (walk ?t)"
    unfolding w by simp_all
  have d1: "\<not> has_docstring_statement [ex_init, ex_method]"
    by (simp add: ex_init_def)
  have d2: "\<not> has_docstring_statement []" by simp
  have r: "startswith ''__repr__'' ''__'' \<and> endswith ''__repr__'' ''__'' \<and>
           ''__repr__'' \<noteq> ''__init__''"
    by (simp add: startswith_def endswith_def)
  have c1: "docstrings_node ?cd ''a.py'' ex_class2 =
      [mkNormError ''a.py'' 1 0 ''DOCSTRING'' (''Class '' @ quoted ''A'' @ '' missing docstring'')]"
    using missing_docstrings_reported [where nm = "''A''" and b = "[ex_init, ex_method]"
        and ln = 1 and co = 0 and tree = ?t and cd = ?cd and fp = "''a.py''"] m1 d1
    unfolding ex_class2_def by blast
  have c2: "docstrings_node ?cd ''a.py'' ex_init =
      [mkNormError ''a.py'' 2 4 ''DOCSTRING''
         (''Function '' @ quoted ''__init__'' @ '' missing docstring'')]"
    using missing_docstrings_reported [where nm = "''__init__''" and b = "[]" and ar = ?selfx
        and rt = None and ln = 2 and co = 4 and tree = ?t and cd = ?cd and fp = "''a.py''"]
      m2 d2
    unfolding ex_init_def by blast
  have c3: "check_docstrings ?cd ?t ''a.py'' =
      docstrings_loop ?cd ''a.py'' [Module [ex_class2], ex_class2, ex_init] @
      docstrings_loop ?cd ''a.py'' []"
    using missing_docstrings_reported [where nm = "''__repr__''" and b = "[]" and ar = ?self
        and rt = None and ln = 3 and co = 4 and tree = ?t and cd = ?cd and fp = "''a.py''"
        and pre = "[Module [ex_class2], ex_class2, ex_init]" and post = "[]"] r w
    unfolding ex_method_def by blast
  have "check_docstrings ?cd ?t ''a.py'' =
     [mkNormError ''a.py'' 1 0 ''DOCSTRING'' (''Class '' @ quoted ''A'' @ '' missing docstring''),
      mkNormError ''a.py'' 2 4 ''DOCSTRING''
        (''Function '' @ quoted ''__init__'' @ '' missing docstring'')]"
  proof -
    have c0: "docstrings_node ?cd ''a.py'' (Module [ex_class2]) = []" by simp
    show ?thesis unfolding c3 using c0 c1 c2 by (simp del: docstrings_node.simps)
  qed
  with m1 m2 d1 d2 r show ?thesis by blast
qed

section \<open>Properties of the checker and the runner\<close>

subsection \<open>Syntax errors\<close>

lemma or_0_eq: "or_0 x = (case x of None \<Rightarrow> 0 | Some v \<Rightarrow> v)"
  by (simp add: or_0_def split: option.splits)

text \<open>
  Claim C2. When the content of a file is read and the parser raises a syntax error,
  \<^verbatim>\<open>check_file\<close> returns exactly one error: code \<^verbatim>\<open>SYNTAX\<close>, the message of the parser after
  "Syntax error: ", the line and column of the parser, 0 where the parser gives none. No
  other check runs (nothing is printed), whatever the content is.
\<close>

theorem syntax_error_single_finding:
  assumes "read_file rt filepath = Inr content"
    and "ast_parse rt content filepath = Inl (SyntaxError lineno offset msg txt)"
  shows "check_file rt filepath =
           ([mkNormError filepath (case lineno of None \<Rightarrow> 0 | Some l \<Rightarrow> l)
               (case offset of None \<Rightarrow> 0 | Some c \<Rightarrow> c) ''SYNTAX'' (''Syntax error: '' @ msg)],
            [])"
  using assms by (simp add: check_file_def or_0_eq)

theorem syntax_error_single_finding_witness:
  "read_file ex_rt ''bad.py'' = Inr ''def f(:'' \<and>
   ast_parse ex_rt ''def f(:'' ''bad.py'' =
     Inl (SyntaxError (Some 1) (Some 7) ''invalid syntax'' ''invalid syntax (bad.py, line 1)'') \<and>
   check_file ex_rt ''bad.py'' =
     ([mkNormError ''bad.py'' 1 7 ''SYNTAX'' ''Syntax error: invalid syntax''], [])"
proof -
  have r: "read_file ex_rt ''bad.py'' = Inr ''def f(:''"
    by (simp add: ex_rt_def ex_runtime_def)
  have p: "ast_parse ex_rt ''def f(:'' ''bad.py'' =
     Inl (SyntaxError (Some 1) (Some 7) ''invalid syntax'' ''invalid syntax (bad.py, line 1)'')"
    by (simp add: ex_rt_def ex_runtime_def)
  from syntax_error_single_finding [OF r p] r p show ?thesis by simp
qed

subsection \<open>The return code\<close>

lemma rglob_loop_errors:
  "fst (snd (rglob_loop rt fs (self, all_errors, out))) =
     all_errors @ concat (map (\<lambda>f. fst (check_file rt f)) fs)"
  by (induction fs arbitrary: self all_errors out)
     (simp_all add: run_check_def split: prod.splits)

lemma paths_loop_errors:
  "fst (snd (paths_loop rt paths st)) = fst (snd st) @ all_findings rt paths"
proof (induction paths arbitrary: st)
  case Nil
  then show ?case by (simp add: all_findings_def checked_files_def)
next
  case (Cons p paths)
  obtain self all_errors out where st: "st = (self, all_errors, out)" by (cases st) auto
  show ?case
    unfolding st
    by (simp add: Cons all_findings_def checked_files_def rglob_loop_errors run_check_def
        split: prod.splits)
qed

text \<open>
  Claim C1. \<^verbatim>\<open>run\<close> returns 0 when the errors of all checked files together are none, and 1
  otherwise; the object holds these errors and their number.
\<close>

theorem run_exit_code:
  "fst (run rt self paths) = (if length (all_findings rt paths) = 0 then 0 else 1) \<and>
   errors (fst (snd (run rt self paths))) = all_findings rt paths \<and>
   total_errors (fst (snd (run rt self paths))) = int (length (all_findings rt paths))"
proof -
  obtain self' all_errors out
    where p: "paths_loop rt paths (self, [], []) = (self', all_errors, out)"
    by (cases "paths_loop rt paths (self, [], [])") auto
  have "all_errors = all_findings rt paths"
    using paths_loop_errors [of rt paths "(self, [], [])"] p by simp
  then show ?thesis
    by (simp add: run_def p Let_def)
qed

lemma check_flake8_ex_rt: "check_flake8 ex_rt fp = ([], [warning_not_installed])"
  by (simp add: check_flake8_def ex_rt_def ex_runtime_def)

lemma check_file_ex_rt_empty: "fst (check_file ex_rt ''src/empty.py'') = []"
proof -
  have r: "read_file ex_rt ''src/empty.py'' = Inr []"
    by (simp add: ex_rt_def ex_runtime_def)
  have p: "ast_parse ex_rt [] ''src/empty.py'' = Inr (Module [])"
    by (simp add: ex_rt_def ex_runtime_def)
  show ?thesis
    by (simp add: check_file_def r p check_flake8_ex_rt check_type_hints_def
        check_docstrings_def walk_def)
qed

lemma check_file_ex_rt_a: "length (fst (check_file ex_rt ''a.py'')) = 4"
proof -
  have r: "read_file ex_rt ''a.py'' = Inr ''def f(x, y): pass''"
    by (simp add: ex_rt_def ex_runtime_def)
  have p: "ast_parse ex_rt ''def f(x, y): pass'' ''a.py'' = Inr (Module [ex_f])"
    by (simp add: ex_rt_def ex_runtime_def)
  show ?thesis
    by (simp add: check_file_def r p check_flake8_ex_rt check_type_hints_def
        check_docstrings_def walk_def ex_f_def startswith_def not_docstring_def)
qed

theorem run_exit_code_witness:
  "fst (run ex_rt ex_self [''notes.txt'', ''src'', ''nothing'']) = 0 \<and>
   checked_files ex_rt [''notes.txt'', ''src'', ''nothing''] = [''src/empty.py''] \<and>
   fst (run ex_rt ex_self [''a.py'', ''src'']) = 1 \<and>
   total_errors (fst (snd (run ex_rt ex_self [''a.py'', ''src'']))) = 4"
proof -
  have c1: "checked_files ex_rt [''notes.txt'', ''src'', ''nothing''] = [''src/empty.py'']"
    by (simp add: checked_files_def ex_rt_def ex_runtime_def)
  have c2: "checked_files ex_rt [''a.py'', ''src''] = [''a.py'', ''src/empty.py'']"
    by (simp add: checked_files_def ex_rt_def ex_runtime_def)
  have a1: "length (all_findings ex_rt [''notes.txt'', ''src'', ''nothing'']) = 0"
    by (simp add: all_findings_def c1 check_file_ex_rt_empty)
  have a2: "length (all_findings ex_rt [''a.py'', ''src'']) = 4"
    by (simp add: all_findings_def c2 check_file_ex_rt_empty check_file_ex_rt_a)
  from run_exit_code [of ex_rt ex_self "[''notes.txt'', ''src'', ''nothing'']"]
       run_exit_code [of ex_rt ex_self "[''a.py'', ''src'']"] a1 a2 c1
  show ?thesis by simp
qed

section \<open>Properties of the adapter and the reporter\<close>

subsection \<open>Failures of the external linter\<close>


lemma flake8_loop_success:
  assumes "\<forall>x \<in> set ls. line_passes x"
  shows "flake8_loop ls acc = (acc @ concat (map parsed_line ls), None)"
  using assms
proof (induction ls arbitrary: acc)
  case Nil
  then show ?case by simp
next
  case (Cons x ls)
  then show ?case
    by (auto simp: line_passes_def split: sum.splits option.splits)
qed








subsection \<open>The order of the report\<close>
































end
